theory Spec2Isabelle
  imports Complex_Main "HOL-Library.Sublist"
begin

section \<open>Interaction-element discovery (element\_finder.py)\<close>

text \<open>
  A shallow embedding of the class \<open>InteractionElementFinder\<close>: the candidate scorer
  \<open>_is_likely_interaction_element\<close>, the record builder \<open>_create_element_info\<close>, the
  deduplication \<open>_deduplicate_elements\<close> and the entry point
  \<open>find_interaction_elements\<close>. The leading underscore of the private methods is
  dropped, since an Isabelle name cannot start with one.

  The page driver (Selenium) is outside the repository. A page is taken as a snapshot:
  every query and every accessor of an element handle has one fixed outcome, which is
  either a value or a raised exception.
\<close>

subsection \<open>Python values, exceptions and strings\<close>

text \<open>Any exception that the driver may raise; \<open>str\<close> gives its message.\<close>

datatype error = Exception string

fun str :: "error \<Rightarrow> string" where
  "str (Exception msg) = msg"

text \<open>The values stored in an element-info dictionary: a string or Python's \<open>None\<close>.\<close>

datatype pyval = PyNone | PyStr string

text \<open>Truthiness, as tested by \<open>if xpath and ...\<close>.\<close>

fun truthy :: "pyval \<Rightarrow> bool" where
  "truthy PyNone = False"
| "truthy (PyStr s) = (s \<noteq> [])"

text \<open>
  \<open>x or ""\<close> for the result of \<open>get_attribute\<close>, which is a string or \<open>None\<close>.
\<close>

fun or_empty :: "string option \<Rightarrow> string" where
  "or_empty None = []"
| "or_empty (Some s) = (if s \<noteq> [] then s else [])"

fun of_optional :: "string option \<Rightarrow> pyval" where
  "of_optional None = PyNone"
| "of_optional (Some s) = PyStr s"

text \<open>
  \<open>str.lower\<close> and \<open>str.strip\<close>. Strings are byte strings here, so the model covers
  the ASCII letters and the ASCII white space; every other byte is left as it is.
\<close>

definition lower_char :: "char \<Rightarrow> char" where
  "lower_char c =
     (case map_of (zip ''ABCDEFGHIJKLMNOPQRSTUVWXYZ'' ''abcdefghijklmnopqrstuvwxyz'') c of
        None \<Rightarrow> c
      | Some d \<Rightarrow> d)"

definition lower :: "string \<Rightarrow> string" where
  "lower s = map lower_char s"

definition is_space :: "char \<Rightarrow> bool" where
  "is_space c = (let n = (of_char c :: nat) in (9 \<le> n \<and> n \<le> 13) \<or> (28 \<le> n \<and> n \<le> 32))"

definition strip :: "string \<Rightarrow> string" where
  "strip s = rev (dropWhile is_space (rev (dropWhile is_space s)))"

text \<open>The substring test \<open>needle in haystack\<close>.\<close>

fun substring_in :: "string \<Rightarrow> string \<Rightarrow> bool" where
  "substring_in needle [] = (needle = [])"
| "substring_in needle (c # cs) = (prefix needle (c # cs) \<or> substring_in needle cs)"

subsection \<open>Element handles and the driver\<close>

text \<open>
  The two scripts that \<open>_generate_xpath\<close> and \<open>_generate_css_selector\<close> hand to
  \<open>driver.execute_script\<close>. A script returns a string or \<open>undefined\<close> (Python's
  \<open>None\<close>), or the call raises.
\<close>

datatype script = getPathTo | getCssSelector

text \<open>
  A handle to a DOM node, with the accessors that the finder uses.
  \<open>el_text\<close> is the property \<open>element.text\<close> and \<open>find_element_parent\<close> is
  \<open>element.find_element(By.XPATH, "..")\<close>.
\<close>

datatype element = Element
  (is_displayed: "error + bool")
  (is_enabled: "error + bool")
  (el_text: "error + string")
  (tag_name: "error + string")
  (get_attribute: "string \<Rightarrow> error + string option")
  (execute_script: "script \<Rightarrow> error + string option")
  (find_element_parent: "error + element")

datatype By = XPATH | CSS_SELECTOR

record driver =
  find_elements :: "By \<Rightarrow> string \<Rightarrow> error + element list"

text \<open>
  The finder object. \<open>INTERACTION_KEYWORDS\<close> is a field because the GUI extends the
  catalog before a run (\<open>element_finder.INTERACTION_KEYWORDS.extend(custom_keywords)\<close>).
\<close>

record finder =
  INTERACTION_KEYWORDS :: "string list"
  ELEMENT_SELECTORS :: "string list"
  similarity_threshold :: int

text \<open>The built-in selector catalog.\<close>

definition builtin_selectors :: "string list" where
  \<open>builtin_selectors =
     [''button'', ''a.vote'', ''a.like'', ''div.vote'', ''div.like'',
      ''span.vote'', ''span.like'', ''i.fa-thumbs-up'', ''i.fa-thumbs-down'',
      ''[aria-label*="like"]'', ''[aria-label*="vote"]'', ''[title*="like"]'',
      ''[title*="vote"]'',
      ''.vote-up'', ''.vote-down'', ''.upvote'', ''.downvote'', ''.like-button'',
      ''.dislike-button'',
      ''[data-action="upvote"]'', ''[data-action="downvote"]'', ''[data-action="like"]'']\<close>

subsection \<open>The candidate scorer\<close>

text \<open>
  \<open>fuzz.partial_ratio\<close> belongs to the fuzzywuzzy library, so the scorer takes it as
  the parameter \<open>pr\<close>: a function from the keyword and the text blob to a score.
\<close>

type_synonym ratio = "string \<Rightarrow> string \<Rightarrow> int"

definition clickable_tags :: "string list" where
  "clickable_tags = [''button'', ''a'', ''input'']"

definition clickable_roles :: "string list" where
  "clickable_roles = [''button'', ''link'', ''checkbox'', ''radio'']"

definition is_clickable :: "string \<Rightarrow> string \<Rightarrow> string \<Rightarrow> bool" where
  "is_clickable element_tag element_role element_class =
     (element_tag \<in> set clickable_tags \<or>
      element_role \<in> set clickable_roles \<or>
      substring_in ''button'' (lower element_class) \<or>
      substring_in ''btn'' (lower element_class))"

text \<open>
  The f-string
  \<open>f"{element_text} {element_class} {element_id} {element_aria_label} {element_title}".lower()\<close>.
\<close>

definition combined_text ::
  "string \<Rightarrow> string \<Rightarrow> string \<Rightarrow> string \<Rightarrow> string \<Rightarrow> string" where
  "combined_text element_text element_class element_id element_aria_label element_title =
     lower (element_text @ '' '' @ element_class @ '' '' @ element_id @ '' '' @
            element_aria_label @ '' '' @ element_title)"

text \<open>The loop over the keywords: the first keyword that scores enough decides.\<close>

fun keyword_loop :: "int \<Rightarrow> ratio \<Rightarrow> string list \<Rightarrow> string \<Rightarrow> bool \<Rightarrow> bool" where
  "keyword_loop threshold pr [] blob clickable = False"
| "keyword_loop threshold pr (keyword # keywords) blob clickable =
     (if pr (lower keyword) blob \<ge> threshold \<and> clickable then True
      else keyword_loop threshold pr keywords blob clickable)"

text \<open>
  Sequencing inside a \<open>try\<close> block: a statement that raises ends the block with its
  exception, otherwise the block goes on with the value.
\<close>

definition and_then :: "error + 'a \<Rightarrow> ('a \<Rightarrow> error + 'b) \<Rightarrow> error + 'b" where
  "and_then m f = (case m of Inl e \<Rightarrow> Inl e | Inr x \<Rightarrow> f x)"

text \<open>
  The body of the \<open>try\<close> block. Each accessor is read in the order of the source, and
  the first one that raises ends the block with the exception.
\<close>

definition likely_body :: "finder \<Rightarrow> ratio \<Rightarrow> element \<Rightarrow> error + bool" where
  "likely_body self pr element =
     and_then (is_displayed element) (\<lambda>displayed.
     if \<not> displayed then Inr False else
     and_then (is_enabled element) (\<lambda>enabled.
     if \<not> enabled then Inr False else
     and_then (el_text element) (\<lambda>t.
     and_then (tag_name element) (\<lambda>tag.
     and_then (get_attribute element ''class'') (\<lambda>cls.
     and_then (get_attribute element ''id'') (\<lambda>ident.
     and_then (get_attribute element ''aria-label'') (\<lambda>aria.
     and_then (get_attribute element ''title'') (\<lambda>title.
     and_then (get_attribute element ''role'') (\<lambda>role.
       (let element_text = (if t \<noteq> [] then lower t else []);
            element_tag = lower tag;
            element_class = or_empty cls;
            element_id = or_empty ident;
            element_aria_label = or_empty aria;
            element_title = or_empty title;
            element_role = or_empty role;
            blob = combined_text element_text element_class element_id
                     element_aria_label element_title;
            clickable = is_clickable element_tag element_role element_class
        in Inr (keyword_loop (similarity_threshold self) pr
                  (INTERACTION_KEYWORDS self) blob clickable)))))))))))"

text \<open>\<open>except Exception: return False\<close>.\<close>

definition is_likely_interaction_element :: "finder \<Rightarrow> ratio \<Rightarrow> element \<Rightarrow> bool" where
  "is_likely_interaction_element self pr element =
     (case likely_body self pr element of Inl e \<Rightarrow> False | Inr b \<Rightarrow> b)"

subsection \<open>Element-info records\<close>

text \<open>
  The element-info dictionary, as the list of its items in insertion order.
  \<open>dict_get d k dflt\<close> is \<open>d.get(k, dflt)\<close>.
\<close>

type_synonym info = "(string \<times> pyval) list"

definition dict_get :: "info \<Rightarrow> string \<Rightarrow> pyval \<Rightarrow> pyval" where
  "dict_get d k dflt = (case map_of d k of None \<Rightarrow> dflt | Some v \<Rightarrow> v)"

definition generate_xpath :: "element \<Rightarrow> error + string option" where
  "generate_xpath element = execute_script element getPathTo"

definition generate_css_selector :: "element \<Rightarrow> error + string option" where
  "generate_css_selector element = execute_script element getCssSelector"

text \<open>\<open>try: v = f(element)\<close> with a bare \<open>except: v = "Unknown"\<close>.\<close>

definition or_unknown :: "error + string option \<Rightarrow> pyval" where
  "or_unknown r = (case r of Inl e \<Rightarrow> PyStr ''Unknown'' | Inr v \<Rightarrow> of_optional v)"

text \<open>The outer \<open>try\<close> block of \<open>_create_element_info\<close>.\<close>

definition info_body :: "element \<Rightarrow> string \<Rightarrow> string \<Rightarrow> error + info" where
  "info_body element match_term match_type =
     and_then (el_text element) (\<lambda>t.
     and_then (get_attribute element ''outerHTML'') (\<lambda>html.
     and_then (tag_name element) (\<lambda>tag.
     and_then (get_attribute element ''class'') (\<lambda>cls.
     and_then (get_attribute element ''id'') (\<lambda>ident.
     and_then (get_attribute element ''aria-label'') (\<lambda>aria.
     and_then (get_attribute element ''title'') (\<lambda>title.
       (let element_text = (if t \<noteq> [] then strip t else []);
            element_xpath = or_unknown (generate_xpath element);
            element_css = or_unknown (generate_css_selector element)
        in Inr [(''element_text'', PyStr element_text),
                (''element_tag'', PyStr tag),
                (''element_class'', PyStr (or_empty cls)),
                (''element_id'', PyStr (or_empty ident)),
                (''element_aria_label'', PyStr (or_empty aria)),
                (''element_title'', PyStr (or_empty title)),
                (''element_html'', of_optional html),
                (''element_xpath'', element_xpath),
                (''element_css'', element_css),
                (''match_term'', PyStr match_term),
                (''match_type'', PyStr match_type)]))))))))"

text \<open>The dictionary of the \<open>except Exception as e\<close> branch.\<close>

definition error_info :: "error \<Rightarrow> string \<Rightarrow> string \<Rightarrow> info" where
  "error_info e match_term match_type =
     [(''element_text'', PyStr ''Error extracting element info''),
      (''element_tag'', PyStr ''unknown''),
      (''error'', PyStr (str e)),
      (''match_term'', PyStr match_term),
      (''match_type'', PyStr match_type)]"

definition create_element_info :: "element \<Rightarrow> string \<Rightarrow> string \<Rightarrow> info" where
  "create_element_info element match_term match_type =
     (case info_body element match_term match_type of
        Inl e \<Rightarrow> error_info e match_term match_type
      | Inr d \<Rightarrow> d)"

subsection \<open>Deduplication\<close>

text \<open>
  The loop of \<open>_deduplicate_elements\<close>, with its two accumulators \<open>seen_xpaths\<close> and
  \<open>unique_elements\<close>.
\<close>

fun dedup_loop :: "info list \<Rightarrow> pyval set \<Rightarrow> info list \<Rightarrow> info list" where
  "dedup_loop [] seen_xpaths unique_elements = unique_elements"
| "dedup_loop (element # elements) seen_xpaths unique_elements =
     (let xpath = dict_get element ''element_xpath'' (PyStr [])
      in if truthy xpath \<and> xpath \<notin> seen_xpaths
         then dedup_loop elements (insert xpath seen_xpaths) (unique_elements @ [element])
         else dedup_loop elements seen_xpaths unique_elements)"

definition deduplicate_elements :: "info list \<Rightarrow> info list" where
  "deduplicate_elements elements = dedup_loop elements {} []"

subsection \<open>The four strategies\<close>

definition quote :: string where
  "quote = [CHR 0x27]"

text \<open>The XPath expression of the keyword strategy, an f-string around the keyword.\<close>

definition keyword_xpath :: "string \<Rightarrow> string" where
  "keyword_xpath keyword =
     ''//*[contains(text(), '' @ quote @ keyword @ quote @
     '') or contains(@value, '' @ quote @ keyword @ quote @ '') or '' @
     ''contains(@aria-label, '' @ quote @ keyword @ quote @
     '') or contains(@title, '' @ quote @ keyword @ quote @ '')]''"

definition svg_xpath :: string where
  "svg_xpath =
     ''//button[.//svg] | //a[.//svg] | //div[.//svg and @role='' @ quote @ ''button'' @
     quote @ '']''"

definition counter_xpath :: string where
  "counter_xpath =
     ''//span[contains(@class, '' @ quote @ ''count'' @ quote @
     '') or contains(@class, '' @ quote @ ''num'' @ quote @
     '') or contains(@class, '' @ quote @ ''score'' @ quote @ '')]''"

text \<open>
  The inner loop shared by the first three strategies: every element that the scorer
  accepts is appended to \<open>found_elements\<close> as a record. Neither the scorer nor the record
  builder raises.
\<close>

fun append_matches ::
  "finder \<Rightarrow> ratio \<Rightarrow> element list \<Rightarrow> string \<Rightarrow> string \<Rightarrow> info list \<Rightarrow> info list" where
  "append_matches self pr [] match_term match_type found_elements = found_elements"
| "append_matches self pr (element # elements) match_term match_type found_elements =
     append_matches self pr elements match_term match_type
       (if is_likely_interaction_element self pr element
        then found_elements @ [create_element_info element match_term match_type]
        else found_elements)"

text \<open>Strategy 1: one query for each keyword; a query that raises is not caught.\<close>

fun keyword_strategy ::
  "finder \<Rightarrow> ratio \<Rightarrow> driver \<Rightarrow> string list \<Rightarrow> info list \<Rightarrow> error + info list" where
  "keyword_strategy self pr drv [] found_elements = Inr found_elements"
| "keyword_strategy self pr drv (keyword # keywords) found_elements =
     and_then (find_elements drv XPATH (keyword_xpath keyword)) (\<lambda>elements.
       keyword_strategy self pr drv keywords
         (append_matches self pr elements keyword ''keyword_match'' found_elements))"

text \<open>
  Strategy 2: one query for each selector, inside \<open>try ... except Exception: continue\<close>.
\<close>

fun selector_strategy ::
  "finder \<Rightarrow> ratio \<Rightarrow> driver \<Rightarrow> string list \<Rightarrow> info list \<Rightarrow> info list" where
  "selector_strategy self pr drv [] found_elements = found_elements"
| "selector_strategy self pr drv (selector # selectors) found_elements =
     (case find_elements drv CSS_SELECTOR selector of
        Inl e \<Rightarrow> selector_strategy self pr drv selectors found_elements
      | Inr elements \<Rightarrow>
          selector_strategy self pr drv selectors
            (append_matches self pr elements selector ''selector_match'' found_elements))"

text \<open>Strategy 3: one query, not caught.\<close>

definition svg_strategy ::
  "finder \<Rightarrow> ratio \<Rightarrow> driver \<Rightarrow> info list \<Rightarrow> error + info list" where
  "svg_strategy self pr drv found_elements =
     and_then (find_elements drv XPATH svg_xpath) (\<lambda>svg_elements.
       Inr (append_matches self pr svg_elements ''svg_icon'' ''svg_match'' found_elements))"

text \<open>
  Strategy 4: the parent of every counter element is scored; neither the query nor the
  step to the parent is caught.
\<close>

fun counter_loop ::
  "finder \<Rightarrow> ratio \<Rightarrow> element list \<Rightarrow> info list \<Rightarrow> error + info list" where
  "counter_loop self pr [] found_elements = Inr found_elements"
| "counter_loop self pr (element # elements) found_elements =
     and_then (find_element_parent element) (\<lambda>parent.
       counter_loop self pr elements
         (if is_likely_interaction_element self pr parent
          then found_elements @ [create_element_info parent ''counter_parent'' ''counter_match'']
          else found_elements))"

definition counter_strategy ::
  "finder \<Rightarrow> ratio \<Rightarrow> driver \<Rightarrow> info list \<Rightarrow> error + info list" where
  "counter_strategy self pr drv found_elements =
     and_then (find_elements drv XPATH counter_xpath) (\<lambda>counter_elements.
       counter_loop self pr counter_elements found_elements)"

subsection \<open>The entry point\<close>

definition find_interaction_elements :: "finder \<Rightarrow> ratio \<Rightarrow> driver \<Rightarrow> error + info list" where
  "find_interaction_elements self pr drv =
     and_then (keyword_strategy self pr drv (INTERACTION_KEYWORDS self) []) (\<lambda>found1.
     (let found2 = selector_strategy self pr drv (ELEMENT_SELECTORS self) found1 in
     and_then (svg_strategy self pr drv found2) (\<lambda>found3.
     and_then (counter_strategy self pr drv found3) (\<lambda>found4.
       Inr (deduplicate_elements found4)))))"

subsection \<open>Example pages\<close>

text \<open>
  A stand-in for the library score in the examples: the full score when the keyword
  occurs in the blob, and nothing otherwise.
\<close>

definition substring_ratio :: ratio where
  "substring_ratio keyword blob = (if substring_in keyword blob then 100 else 0)"

definition example_finder :: finder where
  "example_finder =
     \<lparr>INTERACTION_KEYWORDS = [''like'', ''vote''], ELEMENT_SELECTORS = [''button''],
      similarity_threshold = 70\<rparr>"

definition no_parent :: "error + element" where
  "no_parent = Inl (Exception ''no such element'')"

text \<open>A visible vote button with a class and an aria label.\<close>

fun vote_attributes :: "string \<Rightarrow> error + string option" where
  "vote_attributes name =
     Inr (if name = ''class'' then Some ''vote-up''
          else if name = ''aria-label'' then Some ''upvote this post''
          else if name = ''outerHTML'' then Some ''<button>128</button>''
          else None)"

fun vote_scripts :: "script \<Rightarrow> error + string option" where
  "vote_scripts getPathTo = Inr (Some ''/html/body/button[1]'')"
| "vote_scripts getCssSelector = Inr (Some ''html > body > button'')"

definition vote_button :: element where
  "vote_button =
     Element (Inr True) (Inr True) (Inr ''128'') (Inr ''BUTTON'') vote_attributes vote_scripts
       no_parent"

fun no_attributes :: "string \<Rightarrow> error + string option" where
  "no_attributes name = Inr None"

fun failing_scripts :: "script \<Rightarrow> error + string option" where
  "failing_scripts s = Inl (Exception ''javascript error'')"

text \<open>A plain span with a matching text, a detached element and a hidden button.\<close>

definition likes_span :: element where
  "likes_span =
     Element (Inr True) (Inr True) (Inr ''128 likes'') (Inr ''span'') no_attributes
       failing_scripts no_parent"

definition stale_element :: element where
  "stale_element =
     Element (Inl (Exception ''stale element reference'')) (Inr True) (Inr ''like'')
       (Inr ''button'') no_attributes failing_scripts no_parent"

definition hidden_button :: element where
  "hidden_button =
     Element (Inr False) (Inr True) (Inr ''like'') (Inr ''button'') no_attributes
       failing_scripts no_parent"






text \<open>The records of the vote button as the keyword and the selector strategy make them.\<close>

definition vote_keyword_record :: info where
  "vote_keyword_record = create_element_info vote_button ''vote'' ''keyword_match''"

definition vote_selector_record :: info where
  "vote_selector_record = create_element_info vote_button ''button'' ''selector_match''"

text \<open>
  A page on which the keyword query for "vote" and the selector "button" both find the
  vote button, and the keyword query for "like" finds the plain span.
\<close>

fun example_page_find :: "By \<Rightarrow> string \<Rightarrow> error + element list" where
  "example_page_find XPATH query =
     Inr (if query = keyword_xpath ''vote'' then [vote_button]
          else if query = keyword_xpath ''like'' then [likes_span]
          else [])"
| "example_page_find CSS_SELECTOR query =
     Inr (if query = ''button'' then [vote_button] else [])"

definition example_page :: driver where
  "example_page = \<lparr>find_elements = example_page_find\<rparr>"

text \<open>The same page with a driver that rejects every CSS selector.\<close>

fun selector_error_find :: "By \<Rightarrow> string \<Rightarrow> error + element list" where
  "selector_error_find XPATH query = example_page_find XPATH query"
| "selector_error_find CSS_SELECTOR query = Inl (Exception ''invalid selector'')"

definition selector_error_page :: driver where
  "selector_error_page = \<lparr>find_elements = selector_error_find\<rparr>"

text \<open>The same page with a driver that fails on the query of the svg strategy.\<close>

fun svg_error_find :: "By \<Rightarrow> string \<Rightarrow> error + element list" where
  "svg_error_find XPATH query =
     (if query = svg_xpath then Inl (Exception ''web driver error'')
      else example_page_find XPATH query)"
| "svg_error_find CSS_SELECTOR query = example_page_find CSS_SELECTOR query"

definition svg_error_page :: driver where
  "svg_error_page = \<lparr>find_elements = svg_error_find\<rparr>"

text \<open>The keys of a full record and the four strategy tags.\<close>

definition info_keys :: "string list" where
  "info_keys =
     [''element_text'', ''element_tag'', ''element_class'', ''element_id'',
      ''element_aria_label'', ''element_title'', ''element_html'', ''element_xpath'',
      ''element_css'', ''match_term'', ''match_type'']"

definition match_types :: "string list" where
  "match_types = [''keyword_match'', ''selector_match'', ''svg_match'', ''counter_match'']"

subsection \<open>The library score\<close>

text \<open>
  Modelled from the spec: the score of step 4 of the scorer, "a partial fuzzy-similarity
  score between the keyword and the combined blob (substring-tolerant approximate match,
  e.g. Levenshtein-ratio-style partial matching)". The code calls \<open>fuzz.partial_ratio\<close>
  of the fuzzywuzzy library, which is not part of the repository. The definitions of this
  subsection follow the algorithm of the library on its pure-Python path, where the
  matching blocks come from \<open>difflib.SequenceMatcher(None, shorter, longer)\<close>.

  A match is a triple \<open>(i, j, k)\<close>: \<open>a[i:i+k] == b[j:j+k]\<close>.
\<close>

type_synonym match = "nat \<times> nat \<times> nat"

text \<open>
  \<open>__chain_b\<close>: with no junk function, the only elements left out of the index
  \<open>b2j\<close> are the popular ones of a sequence of 200 or more elements, those that occur
  more than \<open>n // 100 + 1\<close> times.
\<close>

definition popular :: "string \<Rightarrow> char \<Rightarrow> bool" where
  "popular b elt = (200 \<le> length b \<and> length b div 100 + 1 < count_list b elt)"

text \<open>
  \<open>find_longest_match\<close>. The dictionary \<open>j2len\<close> holds, for the row \<open>i\<close> and each
  \<open>j\<close> with \<open>a[i] == b[j]\<close>, the length of the longest run of equal, indexed elements that
  ends at \<open>(i, j)\<close> inside the window; \<open>run_length\<close> is that length.
\<close>

fun run_length :: "string \<Rightarrow> string \<Rightarrow> nat \<Rightarrow> nat \<Rightarrow> nat \<Rightarrow> nat \<Rightarrow> nat" where
  "run_length a b alo blo i j =
     (if a ! i = b ! j \<and> \<not> popular b (b ! j)
      then (if alo < i \<and> blo < j then run_length a b alo blo (i - 1) (j - 1) else 0) + 1
      else 0)"

declare run_length.simps [simp del]

text \<open>
  One step of the inner loop, \<open>if k > bestsize: besti, bestj, bestsize = i-k+1, j-k+1, k\<close>,
  and the two loops over \<open>range(alo, ahi)\<close> and over the positions of \<open>b\<close> in
  \<open>[blo, bhi)\<close>. A position without a run has length 0 and changes nothing.
\<close>

definition inner_step :: "string \<Rightarrow> string \<Rightarrow> nat \<Rightarrow> nat \<Rightarrow> nat \<Rightarrow> match \<Rightarrow> nat \<Rightarrow> match" where
  "inner_step a b alo blo i best j =
     (let k = run_length a b alo blo i j
      in if k > snd (snd best) then (i + 1 - k, j + 1 - k, k) else best)"

definition longest_run :: "string \<Rightarrow> string \<Rightarrow> nat \<Rightarrow> nat \<Rightarrow> nat \<Rightarrow> nat \<Rightarrow> match" where
  "longest_run a b alo ahi blo bhi =
     foldl (\<lambda>best i. foldl (inner_step a b alo blo i) best [blo..<bhi]) (alo, blo, 0) [alo..<ahi]"

text \<open>
  The two \<open>while\<close> loops that extend the block to the left and to the right over equal
  elements (no element is junk, so the loops for junk never run).
\<close>

function extend_left :: "string \<Rightarrow> string \<Rightarrow> nat \<Rightarrow> nat \<Rightarrow> match \<Rightarrow> match" where
  "extend_left a b alo blo (besti, bestj, bestsize) =
     (if besti > alo \<and> bestj > blo \<and> a ! (besti - 1) = b ! (bestj - 1)
      then extend_left a b alo blo (besti - 1, bestj - 1, bestsize + 1)
      else (besti, bestj, bestsize))"
  by pat_completeness auto
termination
  by (relation "measure (\<lambda>(a, b, alo, blo, besti, bestj, bestsize). besti)") auto

function extend_right :: "string \<Rightarrow> string \<Rightarrow> nat \<Rightarrow> nat \<Rightarrow> match \<Rightarrow> match" where
  "extend_right a b ahi bhi (besti, bestj, bestsize) =
     (if besti + bestsize < ahi \<and> bestj + bestsize < bhi \<and>
         a ! (besti + bestsize) = b ! (bestj + bestsize)
      then extend_right a b ahi bhi (besti, bestj, bestsize + 1)
      else (besti, bestj, bestsize))"
  by pat_completeness auto
termination
  by (relation "measure (\<lambda>(a, b, ahi, bhi, besti, bestj, bestsize). ahi - (besti + bestsize))")
    auto

declare extend_left.simps [simp del] extend_right.simps [simp del]

definition find_longest_match :: "string \<Rightarrow> string \<Rightarrow> nat \<Rightarrow> nat \<Rightarrow> nat \<Rightarrow> nat \<Rightarrow> match" where
  "find_longest_match a b alo ahi blo bhi =
     extend_right a b ahi bhi (extend_left a b alo blo (longest_run a b alo ahi blo bhi))"


text \<open>
  The block that \<open>find_longest_match\<close> returns lies inside the window; the recursion of
  \<open>get_matching_blocks\<close> terminates for that reason.
\<close>

lemma foldl_invariant:
  assumes "P s" and "\<And>s x. x \<in> set xs \<Longrightarrow> P s \<Longrightarrow> P (f s x)"
  shows "P (foldl f s xs)"
  using assms by (induction xs arbitrary: s) simp_all

lemma run_length_le:
  "alo \<le> i \<Longrightarrow> blo \<le> j \<Longrightarrow>
     run_length a b alo blo i j \<le> i + 1 - alo \<and> run_length a b alo blo i j \<le> j + 1 - blo"
proof (induction a b alo blo i j rule: run_length.induct)
  case (1 a b alo blo i j)
  show ?case
  proof (cases "a ! i = b ! j \<and> \<not> popular b (b ! j)")
    case False
    then show ?thesis by (subst (1 2) run_length.simps) auto
  next
    case match: True
    show ?thesis
    proof (cases "alo < i \<and> blo < j")
      case True
      then have "alo \<le> i - 1" and "blo \<le> j - 1" by auto
      with match True "1.IH" have
        "run_length a b alo blo (i - 1) (j - 1) \<le> i - 1 + 1 - alo \<and>
         run_length a b alo blo (i - 1) (j - 1) \<le> j - 1 + 1 - blo"
        by blast
      moreover have "run_length a b alo blo i j = run_length a b alo blo (i - 1) (j - 1) + 1"
        using True match by (subst run_length.simps) simp
      ultimately show ?thesis using True by linarith
    next
      case False
      then have "run_length a b alo blo i j = 1"
        using match by (subst run_length.simps) auto
      with "1.prems" show ?thesis by (simp add: Suc_diff_le)
    qed
  qed
qed

definition in_window :: "nat \<Rightarrow> nat \<Rightarrow> nat \<Rightarrow> nat \<Rightarrow> match \<Rightarrow> bool" where
  "in_window alo ahi blo bhi m =
     (case m of (i, j, k) \<Rightarrow>
        alo \<le> i \<and> blo \<le> j \<and> (k = 0 \<longrightarrow> i = alo \<and> j = blo) \<and>
        (k \<noteq> 0 \<longrightarrow> i + k \<le> ahi \<and> j + k \<le> bhi))"

lemma inner_step_in_window:
  assumes "in_window alo ahi blo bhi best" "alo \<le> i" "i < ahi" "blo \<le> j" "j < bhi"
  shows "in_window alo ahi blo bhi (inner_step a b alo blo i best j)"
  using assms run_length_le [of alo i blo j a b]
  by (auto simp: in_window_def inner_step_def Let_def)

lemma longest_run_in_window: "in_window alo ahi blo bhi (longest_run a b alo ahi blo bhi)"
  unfolding longest_run_def
proof (rule foldl_invariant)
  show "in_window alo ahi blo bhi (alo, blo, 0)" by (simp add: in_window_def)
next
  fix best i
  assume i: "i \<in> set [alo..<ahi]" and best: "in_window alo ahi blo bhi best"
  show "in_window alo ahi blo bhi (foldl (inner_step a b alo blo i) best [blo..<bhi])"
  proof (rule foldl_invariant)
    show "in_window alo ahi blo bhi best" by (rule best)
  next
    fix s j
    assume "j \<in> set [blo..<bhi]" and "in_window alo ahi blo bhi s"
    with i show "in_window alo ahi blo bhi (inner_step a b alo blo i s j)"
      by (intro inner_step_in_window) auto
  qed
qed

lemma extend_left_in_window:
  "in_window alo ahi blo bhi m \<Longrightarrow> in_window alo ahi blo bhi (extend_left a b alo blo m)"
proof (induction a b alo blo m rule: extend_left.induct)
  case (1 a b alo blo besti bestj bestsize)
  show ?case
  proof (cases "besti > alo \<and> bestj > blo \<and> a ! (besti - 1) = b ! (bestj - 1)")
    case True
    from "1.prems" True have "in_window alo ahi blo bhi (besti - 1, bestj - 1, bestsize + 1)"
      by (auto simp: in_window_def)
    with True "1.IH" show ?thesis by (subst extend_left.simps) simp
  next
    case False
    with "1.prems" show ?thesis by (subst extend_left.simps) auto
  qed
qed

lemma extend_right_in_window:
  "in_window alo ahi blo bhi m \<Longrightarrow> in_window alo ahi blo bhi (extend_right a b ahi bhi m)"
proof (induction a b ahi bhi m rule: extend_right.induct)
  case (1 a b ahi bhi besti bestj bestsize)
  show ?case
  proof (cases "besti + bestsize < ahi \<and> bestj + bestsize < bhi \<and>
         a ! (besti + bestsize) = b ! (bestj + bestsize)")
    case True
    from "1.prems" True have "in_window alo ahi blo bhi (besti, bestj, bestsize + 1)"
      by (auto simp: in_window_def)
    with True "1.IH" show ?thesis by (subst extend_right.simps) simp
  next
    case False
    with "1.prems" show ?thesis by (subst extend_right.simps) auto
  qed
qed

lemma find_longest_match_in_window:
  "in_window alo ahi blo bhi (find_longest_match a b alo ahi blo bhi)"
  unfolding find_longest_match_def
  by (intro extend_right_in_window extend_left_in_window longest_run_in_window)

lemma find_longest_match_bounds:
  assumes "find_longest_match a b alo ahi blo bhi = (i, j, k)" and "k \<noteq> 0"
  shows "alo \<le> i" "i + k \<le> ahi" "blo \<le> j" "j + k \<le> bhi"
  using find_longest_match_in_window [of alo ahi blo bhi a b] assms
  by (auto simp: in_window_def)

text \<open>
  \<open>get_matching_blocks\<close>: the longest block of the window, then the blocks to its left
  and to its right. The source keeps the windows in a queue and sorts the blocks
  afterwards; left blocks, the block, right blocks is that sorted order.
\<close>

function matching_blocks_in :: "string \<Rightarrow> string \<Rightarrow> nat \<Rightarrow> nat \<Rightarrow> nat \<Rightarrow> nat \<Rightarrow> match list" where
  "matching_blocks_in a b alo ahi blo bhi =
     (case find_longest_match a b alo ahi blo bhi of
        (i, j, k) \<Rightarrow>
          if k = 0 then []
          else (if alo < i \<and> blo < j then matching_blocks_in a b alo i blo j else []) @
               [(i, j, k)] @
               (if i + k < ahi \<and> j + k < bhi then matching_blocks_in a b (i + k) ahi (j + k) bhi
                else []))"
  by pat_completeness auto
termination
proof (relation "measure (\<lambda>(a, b, alo, ahi, blo, bhi). ahi - alo)", goal_cases)
  case 1
  show ?case by simp
next
  case (2 a b alo ahi blo bhi i rest j k)
  then have "find_longest_match a b alo ahi blo bhi = (i, j, k)" by simp
  from find_longest_match_bounds [OF this] 2 show ?case by auto
next
  case (3 a b alo ahi blo bhi i rest j k)
  then have "find_longest_match a b alo ahi blo bhi = (i, j, k)" by simp
  from find_longest_match_bounds [OF this] 3 show ?case by auto
qed

declare matching_blocks_in.simps [simp del]

text \<open>
  The second loop of \<open>get_matching_blocks\<close> merges adjacent blocks, with the state
  \<open>(i1, j1, k1)\<close>; the list ends with the sentinel \<open>(la, lb, 0)\<close>.
\<close>

fun collapse :: "match \<Rightarrow> match list \<Rightarrow> match list" where
  "collapse (i1, j1, k1) [] = (if k1 \<noteq> 0 then [(i1, j1, k1)] else [])"
| "collapse (i1, j1, k1) ((i2, j2, k2) # blocks) =
     (if i1 + k1 = i2 \<and> j1 + k1 = j2 then collapse (i1, j1, k1 + k2) blocks
      else (if k1 \<noteq> 0 then [(i1, j1, k1)] else []) @ collapse (i2, j2, k2) blocks)"

definition get_matching_blocks :: "string \<Rightarrow> string \<Rightarrow> match list" where
  "get_matching_blocks a b =
     collapse (0, 0, 0) (matching_blocks_in a b 0 (length a) 0 (length b)) @
     [(length a, length b, 0)]"

text \<open>
  \<open>SequenceMatcher.ratio\<close>: \<open>2.0 * matches / length\<close>, and 1.0 for two empty sequences.
  The library computes in binary floating point; the model computes the exact rational.
\<close>

definition calculate_ratio :: "nat \<Rightarrow> nat \<Rightarrow> rat" where
  "calculate_ratio matches len = (if len \<noteq> 0 then 2 * of_nat matches / of_nat len else 1)"

definition ratio_of :: "string \<Rightarrow> string \<Rightarrow> rat" where
  "ratio_of a b =
     (let matches = sum_list (map (\<lambda>triple. snd (snd triple)) (get_matching_blocks a b))
      in calculate_ratio matches (length a + length b))"

text \<open>
  \<open>utils.intr(n) = int(round(n))\<close>, where Python 3 rounds a tie to the even integer, and
  \<open>max(scores)\<close>; the list of scores is never empty, since the blocks end with the
  sentinel.
\<close>

definition py_round :: "rat \<Rightarrow> int" where
  "py_round x =
     (let f = \<lfloor>x\<rfloor>; d = x - of_int f
      in if d < 1 / 2 then f else if 1 / 2 < d then f + 1 else if even f then f else f + 1)"

definition intr :: "rat \<Rightarrow> int" where
  "intr n = py_round n"

fun py_max :: "rat list \<Rightarrow> rat" where
  "py_max [] = 0"
| "py_max (x # xs) = fold max xs x"

text \<open>
  The loop of \<open>partial_ratio\<close> over the blocks: the window of \<open>longer\<close> that lines up
  with the block is compared with \<open>shorter\<close>, and a ratio above 0.995 returns 100 at once.
\<close>

fun score_blocks :: "string \<Rightarrow> string \<Rightarrow> match list \<Rightarrow> rat list \<Rightarrow> int" where
  "score_blocks shorter longer [] scores = intr (100 * py_max scores)"
| "score_blocks shorter longer ((i, j, k) # blocks) scores =
     (let long_start = (if j - i > 0 then j - i else 0);
          long_end = long_start + length shorter;
          long_substr = take (long_end - long_start) (drop long_start longer);
          r = ratio_of shorter long_substr
      in if r > 995 / 1000 then 100 else score_blocks shorter longer blocks (scores @ [r]))"

text \<open>
  \<open>fuzz.partial_ratio\<close> with its decorators: two equal strings score 100, an empty
  string scores 0.
\<close>

definition partial_ratio :: "string \<Rightarrow> string \<Rightarrow> int" where
  "partial_ratio s1 s2 =
     (if s1 = s2 then 100
      else if s1 = [] \<or> s2 = [] then 0
      else let shorter = (if length s1 \<le> length s2 then s1 else s2);
               longer = (if length s1 \<le> length s2 then s2 else s1)
           in score_blocks shorter longer (get_matching_blocks shorter longer) [])"

text \<open>A visible, enabled button whose only text is "liked".\<close>

definition liked_button :: element where
  "liked_button =
     Element (Inr True) (Inr True) (Inr ''liked'') (Inr ''button'') no_attributes
       failing_scripts no_parent"

definition like_finder :: finder where
  "like_finder =
     \<lparr>INTERACTION_KEYWORDS = [''like''], ELEMENT_SELECTORS = [], similarity_threshold = 100\<rparr>"

subsection \<open>The candidate records in strategy order\<close>

text \<open>
  The candidate records as the specification words them: the records of the four
  strategies in the fixed order keyword, selector, svg, counter, and in encounter order
  within each strategy. These definitions are list comprehensions beside the loops of
  \<open>find_interaction_elements\<close> above; the two are compared in the section
  on the output and the candidate records. For a list of queried elements, the records
  are those of the elements that the scorer accepts, in the order of the list.
\<close>

definition matches :: "finder \<Rightarrow> ratio \<Rightarrow> element list \<Rightarrow> string \<Rightarrow> string \<Rightarrow> info list" where
  "matches self pr elements match_term match_type =
     map (\<lambda>element. create_element_info element match_term match_type)
       (filter (is_likely_interaction_element self pr) elements)"

text \<open>
  The elements of a query. A query that raised has none: the selector strategy skips such
  a selector, and after such a query in another strategy nothing is returned at all.
\<close>

definition query :: "driver \<Rightarrow> By \<Rightarrow> string \<Rightarrow> element list" where
  "query drv how what = (case find_elements drv how what of Inl e \<Rightarrow> [] | Inr elements \<Rightarrow> elements)"

text \<open>The parents of the counter elements, for the counter strategy.\<close>

definition parents :: "element list \<Rightarrow> element list" where
  "parents elements =
     concat (map (\<lambda>element. case find_element_parent element of Inl e \<Rightarrow> [] | Inr parent \<Rightarrow> [parent])
       elements)"

definition keyword_records :: "finder \<Rightarrow> ratio \<Rightarrow> driver \<Rightarrow> info list" where
  "keyword_records self pr drv =
     concat (map (\<lambda>keyword.
                matches self pr (query drv XPATH (keyword_xpath keyword)) keyword ''keyword_match'')
       (INTERACTION_KEYWORDS self))"

definition selector_records :: "finder \<Rightarrow> ratio \<Rightarrow> driver \<Rightarrow> info list" where
  "selector_records self pr drv =
     concat (map (\<lambda>selector.
                matches self pr (query drv CSS_SELECTOR selector) selector ''selector_match'')
       (ELEMENT_SELECTORS self))"

definition svg_records :: "finder \<Rightarrow> ratio \<Rightarrow> driver \<Rightarrow> info list" where
  "svg_records self pr drv =
     matches self pr (query drv XPATH svg_xpath) ''svg_icon'' ''svg_match''"

definition counter_records :: "finder \<Rightarrow> ratio \<Rightarrow> driver \<Rightarrow> info list" where
  "counter_records self pr drv =
     matches self pr (parents (query drv XPATH counter_xpath)) ''counter_parent''
       ''counter_match''"

text \<open>The records of one strategy, by its tag, and all of them in the fixed order.\<close>

definition strategy_records :: "finder \<Rightarrow> ratio \<Rightarrow> driver \<Rightarrow> string \<Rightarrow> info list" where
  "strategy_records self pr drv tag =
     (if tag = ''keyword_match'' then keyword_records self pr drv
      else if tag = ''selector_match'' then selector_records self pr drv
      else if tag = ''svg_match'' then svg_records self pr drv
      else if tag = ''counter_match'' then counter_records self pr drv
      else [])"

definition candidates :: "finder \<Rightarrow> ratio \<Rightarrow> driver \<Rightarrow> info list" where
  "candidates self pr drv =
     keyword_records self pr drv @ selector_records self pr drv @ svg_records self pr drv @
     counter_records self pr drv"

subsection \<open>More example pages\<close>

text \<open>A visible element without attributes, with its two locators and its parent.\<close>

fun located :: "string \<Rightarrow> string \<Rightarrow> script \<Rightarrow> error + string option" where
  "located xpath css getPathTo = Inr (Some xpath)"
| "located xpath css getCssSelector = Inr (Some css)"

definition plain_element :: "string \<Rightarrow> string \<Rightarrow> string \<Rightarrow> string \<Rightarrow> error + element \<Rightarrow> element" where
  "plain_element body tag xpath css parent =
     Element (Inr True) (Inr True) (Inr body) (Inr tag) no_attributes (located xpath css) parent"

definition second_button :: element where
  "second_button =
     plain_element ''I like it'' ''button'' ''/html/body/button[2]''
       ''html > body > button:nth-of-type(2)'' no_parent"

definition icon_link :: element where
  "icon_link = plain_element ''like'' ''a'' ''/html/body/a[1]'' ''html > body > a'' no_parent"

definition votes_link :: element where
  "votes_link =
     plain_element ''12 votes'' ''a'' ''/html/body/a[2]'' ''html > body > a:nth-of-type(2)''
       no_parent"

definition count_span :: element where
  "count_span =
     plain_element ''12'' ''span'' ''/html/body/a[2]/span[1]''
       ''html > body > a:nth-of-type(2) > span'' (Inr votes_link)"

text \<open>
  A page on which every strategy finds something: the keyword and the selector strategy
  find the vote button, the selector strategy a second button, the svg strategy a link
  and the counter strategy the parent of a counter.
\<close>

fun mixed_page_find :: "By \<Rightarrow> string \<Rightarrow> error + element list" where
  "mixed_page_find XPATH what =
     Inr (if what = keyword_xpath ''vote'' then [vote_button]
          else if what = svg_xpath then [icon_link]
          else if what = counter_xpath then [count_span]
          else [])"
| "mixed_page_find CSS_SELECTOR what =
     Inr (if what = ''button'' then [vote_button, second_button] else [])"

definition mixed_page :: driver where
  "mixed_page = \<lparr>find_elements = mixed_page_find\<rparr>"





text \<open>The records that the selector, svg and counter strategies make on this page.\<close>

definition second_button_record :: info where
  "second_button_record = create_element_info second_button ''button'' ''selector_match''"

definition icon_link_record :: info where
  "icon_link_record = create_element_info icon_link ''svg_icon'' ''svg_match''"

definition votes_link_record :: info where
  "votes_link_record = create_element_info votes_link ''counter_parent'' ''counter_match''"

section \<open>Properties\<close>

lemmas example_defs =
  example_finder_def substring_ratio_def vote_button_def likes_span_def stale_element_def
  hidden_button_def no_parent_def

lemmas string_defs = lower_def lower_char_def combined_text_def is_clickable_def
  clickable_tags_def clickable_roles_def

subsection \<open>The scorer\<close>

lemma and_then_Inr [simp]: "and_then (Inr x) f = f x"
  by (simp add: and_then_def)

lemma and_then_Inl [simp]: "and_then (Inl e) f = Inl e"
  by (simp add: and_then_def)

lemma and_thenE:
  assumes "and_then m f = Inr y"
  obtains x where "m = Inr x" and "f x = Inr y"
  using assms by (cases m) simp_all

text \<open>
  The \<open>try\<close> block yields \<open>True\<close> only when every accessor returned, the element is
  displayed and enabled, and the keyword loop accepted.
\<close>

lemma likely_body_Inr_True:
  assumes "likely_body self pr el = Inr True"
  shows "\<exists>t tag cls ident aria title role.
           is_displayed el = Inr True \<and> is_enabled el = Inr True \<and>
           el_text el = Inr t \<and> tag_name el = Inr tag \<and>
           get_attribute el ''class'' = Inr cls \<and> get_attribute el ''id'' = Inr ident \<and>
           get_attribute el ''aria-label'' = Inr aria \<and>
           get_attribute el ''title'' = Inr title \<and>
           get_attribute el ''role'' = Inr role \<and>
           keyword_loop (similarity_threshold self) pr (INTERACTION_KEYWORDS self)
             (combined_text (if t \<noteq> [] then lower t else []) (or_empty cls) (or_empty ident)
                (or_empty aria) (or_empty title))
             (is_clickable (lower tag) (or_empty role) (or_empty cls))"
proof -
  from assms obtain d where d: "is_displayed el = Inr d"
    unfolding likely_body_def by (rule and_thenE)
  from assms d have d': "d" unfolding likely_body_def by (cases d) simp_all
  from assms d d' obtain en where en: "is_enabled el = Inr en"
    unfolding likely_body_def by simp (erule and_thenE)
  from assms d d' en have en': "en" unfolding likely_body_def by (cases en) simp_all
  from assms d d' en en' obtain t where t: "el_text el = Inr t"
    unfolding likely_body_def by simp (erule and_thenE)
  from assms d d' en en' t obtain tag where tag: "tag_name el = Inr tag"
    unfolding likely_body_def by simp (erule and_thenE)
  from assms d d' en en' t tag obtain cls where cls: "get_attribute el ''class'' = Inr cls"
    unfolding likely_body_def by simp (erule and_thenE)
  from assms d d' en en' t tag cls obtain ident where ident: "get_attribute el ''id'' = Inr ident"
    unfolding likely_body_def by simp (erule and_thenE)
  from assms d d' en en' t tag cls ident obtain aria where
    aria: "get_attribute el ''aria-label'' = Inr aria"
    unfolding likely_body_def by simp (erule and_thenE)
  from assms d d' en en' t tag cls ident aria obtain title where
    title: "get_attribute el ''title'' = Inr title"
    unfolding likely_body_def by simp (erule and_thenE)
  from assms d d' en en' t tag cls ident aria title obtain role where
    role: "get_attribute el ''role'' = Inr role"
    unfolding likely_body_def by simp (erule and_thenE)
  from assms d d' en en' t tag cls ident aria title role show ?thesis
    unfolding likely_body_def by (simp add: Let_def)
qed

lemma likely_body_reads:
  assumes "is_displayed el = Inr True" "is_enabled el = Inr True"
    "el_text el = Inr t" "tag_name el = Inr tag"
    "get_attribute el ''class'' = Inr cls" "get_attribute el ''id'' = Inr ident"
    "get_attribute el ''aria-label'' = Inr aria" "get_attribute el ''title'' = Inr title"
    "get_attribute el ''role'' = Inr role"
  shows "likely_body self pr el =
           Inr (keyword_loop (similarity_threshold self) pr (INTERACTION_KEYWORDS self)
             (combined_text (if t \<noteq> [] then lower t else []) (or_empty cls) (or_empty ident)
                (or_empty aria) (or_empty title))
             (is_clickable (lower tag) (or_empty role) (or_empty cls)))"
  unfolding likely_body_def by (simp add: assms Let_def)

lemma likely_iff:
  "is_likely_interaction_element self pr el \<longleftrightarrow> likely_body self pr el = Inr True"
  by (cases "likely_body self pr el") (simp_all add: is_likely_interaction_element_def)

lemma keyword_loop_iff:
  "keyword_loop thr pr kws blob c \<longleftrightarrow> c \<and> (\<exists>k \<in> set kws. thr \<le> pr (lower k) blob)"
  by (induction kws) auto

lemma keyword_loop_mono:
  "T \<le> T' \<Longrightarrow> keyword_loop T' pr kws blob c \<Longrightarrow> keyword_loop T pr kws blob c"
  by (induction kws) (auto split: if_splits)

lemma vote_button_likely:
  "is_likely_interaction_element (example_finder\<lparr>similarity_threshold := T\<rparr>)
     substring_ratio vote_button \<longleftrightarrow> T \<le> 100"
  by (simp add: likely_iff likely_body_def example_defs string_defs Let_def)

text \<open>
  Claim C4. For every element handle: if the visibility check, the enabled check, the
  text, the tag name or one of the attribute reads (class, id, aria-label, title, role)
  raises, the scorer returns \<open>False\<close>. The scorer is a total function into \<open>bool\<close>, so
  no exception reaches its caller.
\<close>

theorem scorer_swallows_exceptions:
  assumes "isl (is_displayed el) \<or> isl (is_enabled el) \<or> isl (el_text el) \<or> isl (tag_name el) \<or>
           isl (get_attribute el ''class'') \<or> isl (get_attribute el ''id'') \<or>
           isl (get_attribute el ''aria-label'') \<or> isl (get_attribute el ''title'') \<or>
           isl (get_attribute el ''role'')"
  shows "\<not> is_likely_interaction_element self pr el"
proof
  assume "is_likely_interaction_element self pr el"
  then have "likely_body self pr el = Inr True" by (simp add: likely_iff)
  from likely_body_Inr_True [OF this] assms show False by auto
qed

theorem scorer_swallows_exceptions_witness:
  "isl (is_displayed stale_element) \<and>
   \<not> is_likely_interaction_element example_finder substring_ratio stale_element"
  using scorer_swallows_exceptions [of stale_element example_finder substring_ratio]
  by (simp add: stale_element_def)

text \<open>
  Claim C5. An element without any clickable signal (lower-cased tag not button, a or
  input; role not button, link, checkbox or radio; class containing neither "button" nor
  "btn" when lower-cased) is rejected by the scorer, for every score function and every
  threshold.
\<close>

theorem clickability_gate:
  assumes tag: "\<forall>tag. tag_name el = Inr tag \<longrightarrow> lower tag \<notin> {''button'', ''a'', ''input''}"
    and role: "\<forall>role. get_attribute el ''role'' = Inr role \<longrightarrow>
                 or_empty role \<notin> {''button'', ''link'', ''checkbox'', ''radio''}"
    and cls: "\<forall>cls. get_attribute el ''class'' = Inr cls \<longrightarrow>
                 \<not> substring_in ''button'' (lower (or_empty cls)) \<and>
                 \<not> substring_in ''btn'' (lower (or_empty cls))"
  shows "\<not> is_likely_interaction_element self pr el"
proof
  assume "is_likely_interaction_element self pr el"
  then have "likely_body self pr el = Inr True" by (simp add: likely_iff)
  from likely_body_Inr_True [OF this] obtain t tg c i a ti r where
    reads: "tag_name el = Inr tg" "get_attribute el ''class'' = Inr c"
      "get_attribute el ''role'' = Inr r"
    and loop: "keyword_loop (similarity_threshold self) pr (INTERACTION_KEYWORDS self)
             (combined_text (if t \<noteq> [] then lower t else []) (or_empty c) (or_empty i)
                (or_empty a) (or_empty ti))
             (is_clickable (lower tg) (or_empty r) (or_empty c))"
    by blast
  from loop have "is_clickable (lower tg) (or_empty r) (or_empty c)"
    by (simp add: keyword_loop_iff)
  with tag role cls reads show False
    by (simp add: is_clickable_def clickable_tags_def clickable_roles_def)
qed

theorem clickability_gate_witness:
  "tag_name likes_span = Inr ''span'' \<and>
   substring_ratio ''like'' ''128 likes    '' = 100 \<and>
   \<not> is_likely_interaction_element example_finder substring_ratio likes_span"
  using clickability_gate [of likes_span example_finder substring_ratio]
  by (simp add: likes_span_def lower_def lower_char_def substring_ratio_def)

text \<open>
  Claim C6. For a fixed element and thresholds \<open>T \<le> T'\<close>: if the scorer accepts the
  element at \<open>T'\<close>, it accepts it at \<open>T\<close>; so the candidates among any elements at \<open>T\<close>
  include the candidates at \<open>T'\<close>.
\<close>

theorem threshold_monotone:
  assumes "T \<le> T'"
  shows "(is_likely_interaction_element (self\<lparr>similarity_threshold := T'\<rparr>) pr el \<longrightarrow>
          is_likely_interaction_element (self\<lparr>similarity_threshold := T\<rparr>) pr el) \<and>
         set (filter (is_likely_interaction_element (self\<lparr>similarity_threshold := T'\<rparr>) pr) els)
           \<subseteq> set (filter (is_likely_interaction_element (self\<lparr>similarity_threshold := T\<rparr>) pr) els)"
proof -
  have mono: "is_likely_interaction_element (self\<lparr>similarity_threshold := T\<rparr>) pr x"
    if "is_likely_interaction_element (self\<lparr>similarity_threshold := T'\<rparr>) pr x" for x
  proof -
    from that have "likely_body (self\<lparr>similarity_threshold := T'\<rparr>) pr x = Inr True"
      by (simp add: likely_iff)
    from likely_body_Inr_True [OF this] obtain t tg c i a ti r where
      reads: "is_displayed x = Inr True" "is_enabled x = Inr True"
        "el_text x = Inr t" "tag_name x = Inr tg"
        "get_attribute x ''class'' = Inr c" "get_attribute x ''id'' = Inr i"
        "get_attribute x ''aria-label'' = Inr a" "get_attribute x ''title'' = Inr ti"
        "get_attribute x ''role'' = Inr r"
      and loop: "keyword_loop T' pr (INTERACTION_KEYWORDS self)
             (combined_text (if t \<noteq> [] then lower t else []) (or_empty c) (or_empty i)
                (or_empty a) (or_empty ti))
             (is_clickable (lower tg) (or_empty r) (or_empty c))"
      by auto
    from loop assms have "keyword_loop T pr (INTERACTION_KEYWORDS self)
             (combined_text (if t \<noteq> [] then lower t else []) (or_empty c) (or_empty i)
                (or_empty a) (or_empty ti))
             (is_clickable (lower tg) (or_empty r) (or_empty c))"
      by (rule keyword_loop_mono [rotated])
    then show ?thesis
      by (simp add: likely_iff likely_body_reads [OF reads])
  qed
  then show ?thesis by auto
qed

theorem threshold_monotone_witness:
  "(50::int) \<le> 90 \<and>
   is_likely_interaction_element (example_finder\<lparr>similarity_threshold := 90\<rparr>)
     substring_ratio vote_button \<and>
   is_likely_interaction_element (example_finder\<lparr>similarity_threshold := 50\<rparr>)
     substring_ratio vote_button"
  using threshold_monotone [of 50 90 example_finder substring_ratio vote_button "[vote_button]"]
  by (simp add: vote_button_likely)

subsection \<open>Deduplication\<close>

lemma dedup_loop_append:
  "dedup_loop xs seen uniq = uniq @ dedup_loop xs seen []"
proof (induction xs arbitrary: seen uniq)
  case Nil
  show ?case by simp
next
  case (Cons x xs)
  show ?case
    using Cons.IH [of "insert (dict_get x ''element_xpath'' (PyStr [])) seen" "uniq @ [x]"]
      Cons.IH [of "insert (dict_get x ''element_xpath'' (PyStr [])) seen" "[x]"]
      Cons.IH [of seen uniq]
    by (simp add: Let_def)
qed

lemma dedup_loop_Cons:
  "dedup_loop (x # xs) seen [] =
     (if truthy (dict_get x ''element_xpath'' (PyStr [])) \<and>
         dict_get x ''element_xpath'' (PyStr []) \<notin> seen
      then x # dedup_loop xs (insert (dict_get x ''element_xpath'' (PyStr [])) seen) []
      else dedup_loop xs seen [])"
  using dedup_loop_append [of xs "insert (dict_get x ''element_xpath'' (PyStr [])) seen" "[x]"]
  by (simp add: Let_def)



lemma dedup_loop_truthy:
  "r \<in> set (dedup_loop xs seen []) \<Longrightarrow>
     r \<in> set xs \<and> truthy (dict_get r ''element_xpath'' (PyStr []))"
  by (induction xs arbitrary: seen)
    (auto simp: dedup_loop_Cons simp del: dedup_loop.simps(2) split: if_splits)






lemma vote_keyword_record_eq:
  "vote_keyword_record =
     [(''element_text'', PyStr ''128''), (''element_tag'', PyStr ''BUTTON''),
      (''element_class'', PyStr ''vote-up''), (''element_id'', PyStr []),
      (''element_aria_label'', PyStr ''upvote this post''), (''element_title'', PyStr []),
      (''element_html'', PyStr ''<button>128</button>''),
      (''element_xpath'', PyStr ''/html/body/button[1]''),
      (''element_css'', PyStr ''html > body > button''), (''match_term'', PyStr ''vote''),
      (''match_type'', PyStr ''keyword_match'')]"
  by (simp add: vote_keyword_record_def create_element_info_def info_body_def vote_button_def
      generate_xpath_def generate_css_selector_def or_unknown_def strip_def is_space_def Let_def)

lemma vote_selector_record_eq:
  "vote_selector_record =
     [(''element_text'', PyStr ''128''), (''element_tag'', PyStr ''BUTTON''),
      (''element_class'', PyStr ''vote-up''), (''element_id'', PyStr []),
      (''element_aria_label'', PyStr ''upvote this post''), (''element_title'', PyStr []),
      (''element_html'', PyStr ''<button>128</button>''),
      (''element_xpath'', PyStr ''/html/body/button[1]''),
      (''element_css'', PyStr ''html > body > button''), (''match_term'', PyStr ''button''),
      (''match_type'', PyStr ''selector_match'')]"
  by (simp add: vote_selector_record_def create_element_info_def info_body_def vote_button_def
      generate_xpath_def generate_css_selector_def or_unknown_def strip_def is_space_def Let_def)

subsection \<open>Threshold zero\<close>

text \<open>
  Claim C7 as stated fails: a hidden button is a clickable element, and the scorer rejects
  it at threshold 0, because the visibility check comes before the keyword loop.
\<close>

theorem hidden_button_counterexample:
  "is_clickable (lower ''button'') [] [] \<and>
   \<not> is_likely_interaction_element (example_finder\<lparr>similarity_threshold := 0\<rparr>)
       substring_ratio hidden_button"
  by (simp add: is_likely_interaction_element_def likely_body_def example_defs string_defs)

text \<open>
  Claim C7, amended. With threshold 0, a non-empty keyword catalog and a score that is
  never negative, the scorer accepts every clickable element that is displayed and
  enabled and whose text, tag name and attributes can be read.
\<close>

theorem threshold_zero_accepts_clickable:
  assumes "similarity_threshold self = 0" and "INTERACTION_KEYWORDS self \<noteq> []"
    and "\<forall>k blob. 0 \<le> pr k blob"
    and reads: "is_displayed el = Inr True" "is_enabled el = Inr True"
      "el_text el = Inr t" "tag_name el = Inr tag"
      "get_attribute el ''class'' = Inr cls" "get_attribute el ''id'' = Inr ident"
      "get_attribute el ''aria-label'' = Inr aria" "get_attribute el ''title'' = Inr title"
      "get_attribute el ''role'' = Inr role"
    and "is_clickable (lower tag) (or_empty role) (or_empty cls)"
  shows "is_likely_interaction_element self pr el"
proof -
  from assms(2) obtain k where "k \<in> set (INTERACTION_KEYWORDS self)"
    by (cases "INTERACTION_KEYWORDS self") auto
  with assms(1,3,13) show ?thesis
    by (auto simp: likely_iff likely_body_reads [OF reads] keyword_loop_iff)
qed

theorem threshold_zero_accepts_clickable_witness:
  "is_displayed vote_button = Inr True \<and> is_enabled vote_button = Inr True \<and>
   is_likely_interaction_element (example_finder\<lparr>similarity_threshold := 0\<rparr>)
     substring_ratio vote_button"
  using threshold_zero_accepts_clickable
      [of "example_finder\<lparr>similarity_threshold := 0\<rparr>" substring_ratio vote_button
        "''128''" "''BUTTON''" "Some ''vote-up''" None "Some ''upvote this post''" None None]
  by (simp add: example_defs string_defs)

subsection \<open>Records and strategies\<close>

lemma info_body_Inr:
  assumes "info_body el mterm ty = Inr d"
  obtains body tag cls ident aria title html xp css where
    "d = [(''element_text'', PyStr body), (''element_tag'', PyStr tag),
          (''element_class'', PyStr cls), (''element_id'', PyStr ident),
          (''element_aria_label'', PyStr aria), (''element_title'', PyStr title),
          (''element_html'', html), (''element_xpath'', xp), (''element_css'', css),
          (''match_term'', PyStr mterm), (''match_type'', PyStr ty)]"
proof -
  from assms obtain t where t: "el_text el = Inr t"
    unfolding info_body_def by (rule and_thenE)
  from assms t obtain html where html: "get_attribute el ''outerHTML'' = Inr html"
    unfolding info_body_def by simp (erule and_thenE)
  from assms t html obtain tag where tag: "tag_name el = Inr tag"
    unfolding info_body_def by simp (erule and_thenE)
  from assms t html tag obtain cls where cls: "get_attribute el ''class'' = Inr cls"
    unfolding info_body_def by simp (erule and_thenE)
  from assms t html tag cls obtain ident where ident: "get_attribute el ''id'' = Inr ident"
    unfolding info_body_def by simp (erule and_thenE)
  from assms t html tag cls ident obtain aria where
    aria: "get_attribute el ''aria-label'' = Inr aria"
    unfolding info_body_def by simp (erule and_thenE)
  from assms t html tag cls ident aria obtain title where
    title: "get_attribute el ''title'' = Inr title"
    unfolding info_body_def by simp (erule and_thenE)
  from assms t html tag cls ident aria title have
    "d = [(''element_text'', PyStr (if t \<noteq> [] then strip t else [])),
          (''element_tag'', PyStr tag),
          (''element_class'', PyStr (or_empty cls)), (''element_id'', PyStr (or_empty ident)),
          (''element_aria_label'', PyStr (or_empty aria)),
          (''element_title'', PyStr (or_empty title)),
          (''element_html'', of_optional html),
          (''element_xpath'', or_unknown (generate_xpath el)),
          (''element_css'', or_unknown (generate_css_selector el)),
          (''match_term'', PyStr mterm), (''match_type'', PyStr ty)]"
    unfolding info_body_def by (simp add: Let_def)
  then show thesis by (rule that)
qed

lemma create_element_info_cases:
  obtains (failed) e where "create_element_info el mterm ty = error_info e mterm ty"
  | (full) body tag cls ident aria title html xp css where
      "create_element_info el mterm ty =
         [(''element_text'', PyStr body), (''element_tag'', PyStr tag),
          (''element_class'', PyStr cls), (''element_id'', PyStr ident),
          (''element_aria_label'', PyStr aria), (''element_title'', PyStr title),
          (''element_html'', html), (''element_xpath'', xp), (''element_css'', css),
          (''match_term'', PyStr mterm), (''match_type'', PyStr ty)]"
proof (cases "info_body el mterm ty")
  case (Inl e)
  then have "create_element_info el mterm ty = error_info e mterm ty"
    by (simp add: create_element_info_def)
  then show ?thesis by (rule failed)
next
  case (Inr d)
  then have c: "create_element_info el mterm ty = d"
    by (simp add: create_element_info_def)
  from Inr show ?thesis
    by (rule info_body_Inr) (rule full, simp only: c)
qed

lemma create_element_info_match_type:
  "dict_get (create_element_info el mterm ty) ''match_type'' dflt = PyStr ty"
  by (cases el mterm ty rule: create_element_info_cases)
    (simp_all add: dict_get_def error_info_def)

lemma create_element_info_keys:
  "map fst (create_element_info el mterm ty) = info_keys \<or>
   map_of (create_element_info el mterm ty) ''element_xpath'' = None"
  by (cases el mterm ty rule: create_element_info_cases)
    (simp_all add: error_info_def info_keys_def)

text \<open>An invariant of all records is kept by every strategy.\<close>

lemma append_matches_inv:
  assumes "\<forall>r \<in> set found. Q r" and "\<And>el. Q (create_element_info el mterm ty)"
  shows "\<forall>r \<in> set (append_matches self pr els mterm ty found). Q r"
  using assms(1)
proof (induction els arbitrary: found)
  case Nil
  then show ?case by simp
next
  case (Cons el els)
  have "\<forall>r \<in> set (if is_likely_interaction_element self pr el
                     then found @ [create_element_info el mterm ty] else found). Q r"
    using Cons.prems assms(2) by simp
  then show ?case using Cons.IH by simp
qed

lemma keyword_strategy_inv:
  assumes "keyword_strategy self pr drv kws found = Inr out"
    and "\<forall>r \<in> set found. Q r"
    and "\<And>el mterm. Q (create_element_info el mterm ''keyword_match'')"
  shows "\<forall>r \<in> set out. Q r"
  using assms(1,2)
proof (induction kws arbitrary: found)
  case Nil
  then show ?case by simp
next
  case (Cons kw kws)
  from Cons.prems(1) obtain els where
    "keyword_strategy self pr drv kws
       (append_matches self pr els kw ''keyword_match'' found) = Inr out"
    by simp (erule and_thenE)
  moreover have "\<forall>r \<in> set (append_matches self pr els kw ''keyword_match'' found). Q r"
    using Cons.prems(2) assms(3) by (rule append_matches_inv)
  ultimately show ?case by (rule Cons.IH)
qed

lemma selector_strategy_inv:
  assumes "\<forall>r \<in> set found. Q r"
    and "\<And>el mterm. Q (create_element_info el mterm ''selector_match'')"
  shows "\<forall>r \<in> set (selector_strategy self pr drv sels found). Q r"
  using assms(1)
proof (induction sels arbitrary: found)
  case Nil
  then show ?case by simp
next
  case (Cons sel sels)
  show ?case
  proof (cases "find_elements drv CSS_SELECTOR sel")
    case (Inl e)
    with Cons show ?thesis by simp
  next
    case (Inr els)
    have "\<forall>r \<in> set (append_matches self pr els sel ''selector_match'' found). Q r"
      using Cons.prems assms(2) by (rule append_matches_inv)
    then show ?thesis using Inr Cons.IH by simp
  qed
qed

lemma svg_strategy_inv:
  assumes "svg_strategy self pr drv found = Inr out"
    and "\<forall>r \<in> set found. Q r"
    and "\<And>el mterm. Q (create_element_info el mterm ''svg_match'')"
  shows "\<forall>r \<in> set out. Q r"
proof -
  from assms(1) obtain els where
    "out = append_matches self pr els ''svg_icon'' ''svg_match'' found"
    unfolding svg_strategy_def by (elim and_thenE) auto
  then show ?thesis
    using append_matches_inv [OF assms(2), of "''svg_icon''" "''svg_match''"] assms(3)
    by simp
qed

lemma counter_loop_inv:
  assumes "counter_loop self pr els found = Inr out"
    and "\<forall>r \<in> set found. Q r"
    and "\<And>el mterm. Q (create_element_info el mterm ''counter_match'')"
  shows "\<forall>r \<in> set out. Q r"
  using assms(1,2)
proof (induction els arbitrary: found)
  case Nil
  then show ?case by simp
next
  case (Cons el els)
  from Cons.prems(1) obtain parent where
    "counter_loop self pr els
       (if is_likely_interaction_element self pr parent
        then found @ [create_element_info parent ''counter_parent'' ''counter_match'']
        else found) = Inr out"
    by simp (erule and_thenE)
  moreover have "\<forall>r \<in> set (if is_likely_interaction_element self pr parent
        then found @ [create_element_info parent ''counter_parent'' ''counter_match'']
        else found). Q r"
    using Cons.prems(2) assms(3) by simp
  ultimately show ?case by (rule Cons.IH)
qed

lemma counter_strategy_inv:
  assumes "counter_strategy self pr drv found = Inr out"
    and "\<forall>r \<in> set found. Q r"
    and "\<And>el mterm. Q (create_element_info el mterm ''counter_match'')"
  shows "\<forall>r \<in> set out. Q r"
proof -
  from assms(1) obtain els where "counter_loop self pr els found = Inr out"
    unfolding counter_strategy_def by (rule and_thenE)
  then show ?thesis using assms(2,3) by (rule counter_loop_inv)
qed

lemma find_interaction_elements_inv:
  assumes "find_interaction_elements self pr drv = Inr out"
    and Q: "\<And>el mterm ty. ty \<in> set match_types \<Longrightarrow> Q (create_element_info el mterm ty)"
  shows "\<forall>r \<in> set out. Q r \<and> truthy (dict_get r ''element_xpath'' (PyStr []))"
proof -
  from assms(1) obtain found1 where
    f1: "keyword_strategy self pr drv (INTERACTION_KEYWORDS self) [] = Inr found1"
    and r1: "and_then (svg_strategy self pr drv
               (selector_strategy self pr drv (ELEMENT_SELECTORS self) found1))
             (\<lambda>found3. and_then (counter_strategy self pr drv found3)
                (\<lambda>found4. Inr (deduplicate_elements found4))) = Inr out"
    unfolding find_interaction_elements_def Let_def by (rule and_thenE)
  from r1 obtain found3 where
    f3: "svg_strategy self pr drv
           (selector_strategy self pr drv (ELEMENT_SELECTORS self) found1) = Inr found3"
    and r3: "and_then (counter_strategy self pr drv found3)
                (\<lambda>found4. Inr (deduplicate_elements found4)) = Inr out"
    by (rule and_thenE)
  from r3 obtain found4 where
    f4: "counter_strategy self pr drv found3 = Inr found4"
    and out: "out = deduplicate_elements found4"
    by (elim and_thenE) auto
  have q1: "\<forall>r \<in> set found1. Q r"
    using f1 by (rule keyword_strategy_inv) (simp_all add: Q match_types_def)
  have "\<forall>r \<in> set (selector_strategy self pr drv (ELEMENT_SELECTORS self) found1). Q r"
    using q1 by (rule selector_strategy_inv) (simp add: Q match_types_def)
  with f3 have "\<forall>r \<in> set found3. Q r"
    by (rule svg_strategy_inv) (simp add: Q match_types_def)
  with f4 have "\<forall>r \<in> set found4. Q r"
    by (rule counter_strategy_inv) (simp add: Q match_types_def)
  then show ?thesis
    unfolding out deduplicate_elements_def using dedup_loop_truthy by blast
qed

text \<open>
  Claim C10. Every record that \<open>find_interaction_elements\<close> returns binds
  \<open>element_xpath\<close> to a non-empty string and has exactly the eleven record fields;
  a record of the exception branch of \<open>_create_element_info\<close> (it has the key
  \<open>error\<close> and no \<open>element_xpath\<close>) is never returned.
\<close>

theorem records_carry_locator_and_fields:
  assumes "find_interaction_elements self pr drv = Inr out"
  shows "\<forall>r \<in> set out.
           (\<exists>v. v \<noteq> [] \<and> map_of r ''element_xpath'' = Some (PyStr v)) \<and>
           map fst r =
             [''element_text'', ''element_tag'', ''element_class'', ''element_id'',
              ''element_aria_label'', ''element_title'', ''element_html'', ''element_xpath'',
              ''element_css'', ''match_term'', ''match_type''] \<and>
           map_of r ''error'' = None"
proof -
  have inv: "\<forall>r \<in> set out.
          (map fst r = info_keys \<or> map_of r ''element_xpath'' = None) \<and>
          truthy (dict_get r ''element_xpath'' (PyStr []))"
    using assms by (rule find_interaction_elements_inv)
      (simp add: create_element_info_keys)
  show ?thesis
  proof
    fix r assume "r \<in> set out"
    with inv have keys: "map fst r = info_keys \<or> map_of r ''element_xpath'' = None"
      and tr: "truthy (dict_get r ''element_xpath'' (PyStr []))" by auto
    from tr obtain v where v: "v \<noteq> []" "map_of r ''element_xpath'' = Some (PyStr v)"
      by (cases "map_of r ''element_xpath''"; cases "dict_get r ''element_xpath'' (PyStr [])")
         (auto simp: dict_get_def)
    with keys have k: "map fst r = info_keys" by simp
    from k have "fst ` set r = set info_keys" by (simp flip: set_map)
    then have "''error'' \<notin> fst ` set r" by (simp add: info_keys_def)
    then have "map_of r ''error'' = None" by (simp add: map_of_eq_None_iff)
    with v k show "(\<exists>v. v \<noteq> [] \<and> map_of r ''element_xpath'' = Some (PyStr v)) \<and>
           map fst r =
             [''element_text'', ''element_tag'', ''element_class'', ''element_id'',
              ''element_aria_label'', ''element_title'', ''element_html'', ''element_xpath'',
              ''element_css'', ''match_term'', ''match_type''] \<and>
           map_of r ''error'' = None"
      by (auto simp: info_keys_def)
  qed
qed


lemma example_scores:
  "is_likely_interaction_element example_finder substring_ratio vote_button"
  "\<not> is_likely_interaction_element example_finder substring_ratio likes_span"
  by (simp_all add: is_likely_interaction_element_def likely_body_def example_defs string_defs
      Let_def)

lemma example_catalogs:
  "INTERACTION_KEYWORDS example_finder = [''like'', ''vote'']"
  "ELEMENT_SELECTORS example_finder = [''button'']"
  by (simp_all add: example_finder_def)

lemma example_queries:
  "keyword_xpath ''like'' \<noteq> keyword_xpath ''vote''"
  "svg_xpath \<noteq> keyword_xpath ''vote''" "svg_xpath \<noteq> keyword_xpath ''like''"
  "counter_xpath \<noteq> keyword_xpath ''vote''" "counter_xpath \<noteq> keyword_xpath ''like''"
  "counter_xpath \<noteq> svg_xpath"
  by (simp_all add: keyword_xpath_def svg_xpath_def counter_xpath_def quote_def)

lemma example_page_found:
  "find_interaction_elements example_finder substring_ratio example_page =
     Inr [vote_keyword_record]"
  using example_queries
  by (simp add: find_interaction_elements_def svg_strategy_def counter_strategy_def
      example_page_def example_scores example_catalogs
      vote_keyword_record_def [symmetric] vote_selector_record_def [symmetric]
      deduplicate_elements_def vote_keyword_record_eq vote_selector_record_eq dict_get_def)

lemma selector_error_page_found:
  "find_interaction_elements example_finder substring_ratio selector_error_page =
     Inr [vote_keyword_record]"
  using example_queries
  by (simp add: find_interaction_elements_def svg_strategy_def counter_strategy_def
      selector_error_page_def example_scores example_catalogs
      vote_keyword_record_def [symmetric] vote_selector_record_def [symmetric]
      deduplicate_elements_def vote_keyword_record_eq vote_selector_record_eq dict_get_def)

text \<open>
  Claim C3 fails on the code. Only the selector strategy wraps its query in
  \<open>try ... except Exception: continue\<close>: a driver that rejects every selector still
  yields the keyword record (lemma \<open>selector_error_page_found\<close>). The queries of the
  keyword, svg and counter strategies are not wrapped. On the page below the keyword and
  selector strategies have found the vote button when the svg query raises; the exception
  leaves \<open>find_interaction_elements\<close> and the records found so far are lost.
\<close>

theorem svg_query_error_propagates:
  "find_interaction_elements example_finder substring_ratio svg_error_page =
     Inl (Exception ''web driver error'')"
  using example_queries
  by (simp add: find_interaction_elements_def svg_strategy_def counter_strategy_def
      svg_error_page_def example_scores example_catalogs
      vote_keyword_record_def [symmetric] vote_selector_record_def [symmetric])

theorem records_carry_locator_and_fields_witness:
  "find_interaction_elements example_finder substring_ratio example_page =
     Inr [vote_keyword_record] \<and>
   map_of vote_keyword_record ''element_xpath'' = Some (PyStr ''/html/body/button[1]'') \<and>
   length vote_keyword_record = 11"
  using records_carry_locator_and_fields [OF example_page_found]
  by (simp add: example_page_found vote_keyword_record_eq)

subsection \<open>The output and the candidate records\<close>

text \<open>
  The loops of the four strategies append the candidate records in the fixed order, and
  the entry point returns their deduplication.
\<close>

lemma append_matches_eq:
  "append_matches self pr els mterm ty found = found @ matches self pr els mterm ty"
  by (induction els arbitrary: found) (simp_all add: matches_def)

lemma query_Inr: "find_elements drv how what = Inr els \<Longrightarrow> query drv how what = els"
  by (simp add: query_def)

lemma keyword_strategy_eq:
  assumes "keyword_strategy self pr drv kws found = Inr out"
  shows "out = found @
           concat (map (\<lambda>keyword.
                      matches self pr (query drv XPATH (keyword_xpath keyword)) keyword
                        ''keyword_match'') kws)"
  using assms
proof (induction kws arbitrary: found)
  case Nil
  then show ?case by simp
next
  case (Cons kw kws)
  from Cons.prems obtain els where
    els: "find_elements drv XPATH (keyword_xpath kw) = Inr els"
    and rest: "keyword_strategy self pr drv kws
       (append_matches self pr els kw ''keyword_match'' found) = Inr out"
    by simp (erule and_thenE)
  from Cons.IH [OF rest] show ?case
    by (simp add: append_matches_eq query_Inr [OF els])
qed

lemma selector_strategy_eq:
  "selector_strategy self pr drv sels found =
     found @
     concat (map (\<lambda>selector.
                matches self pr (query drv CSS_SELECTOR selector) selector ''selector_match'')
       sels)"
proof (induction sels arbitrary: found)
  case Nil
  show ?case by simp
next
  case (Cons sel sels)
  show ?case
  proof (cases "find_elements drv CSS_SELECTOR sel")
    case (Inl e)
    then show ?thesis by (simp add: Cons.IH query_def matches_def)
  next
    case (Inr els)
    then show ?thesis by (simp add: Cons.IH query_def append_matches_eq)
  qed
qed

lemma svg_strategy_eq:
  assumes "svg_strategy self pr drv found = Inr out"
  shows "out = found @ svg_records self pr drv"
proof -
  from assms obtain els where "find_elements drv XPATH svg_xpath = Inr els"
    and "out = append_matches self pr els ''svg_icon'' ''svg_match'' found"
    unfolding svg_strategy_def by (elim and_thenE) auto
  then show ?thesis by (simp add: svg_records_def append_matches_eq query_Inr)
qed

lemma counter_loop_eq:
  assumes "counter_loop self pr els found = Inr out"
  shows "out = found @ matches self pr (parents els) ''counter_parent'' ''counter_match''"
  using assms
proof (induction els arbitrary: found)
  case Nil
  then show ?case by (simp add: parents_def matches_def)
next
  case (Cons el els)
  from Cons.prems obtain parent where
    parent: "find_element_parent el = Inr parent"
    and rest: "counter_loop self pr els
       (if is_likely_interaction_element self pr parent
        then found @ [create_element_info parent ''counter_parent'' ''counter_match'']
        else found) = Inr out"
    by simp (erule and_thenE)
  have "parents (el # els) = parent # parents els"
    by (simp add: parents_def parent)
  with Cons.IH [OF rest] show ?case by (simp add: matches_def)
qed

lemma counter_strategy_eq:
  assumes "counter_strategy self pr drv found = Inr out"
  shows "out = found @ counter_records self pr drv"
proof -
  from assms obtain els where els: "find_elements drv XPATH counter_xpath = Inr els"
    and "counter_loop self pr els found = Inr out"
    unfolding counter_strategy_def by (rule and_thenE)
  from counter_loop_eq [OF this(2)] show ?thesis
    by (simp add: counter_records_def query_Inr [OF els])
qed

lemma find_interaction_elements_eq:
  assumes "find_interaction_elements self pr drv = Inr out"
  shows "out = deduplicate_elements (candidates self pr drv)"
proof -
  from assms obtain found1 where
    f1: "keyword_strategy self pr drv (INTERACTION_KEYWORDS self) [] = Inr found1"
    and r1: "and_then (svg_strategy self pr drv
               (selector_strategy self pr drv (ELEMENT_SELECTORS self) found1))
             (\<lambda>found3. and_then (counter_strategy self pr drv found3)
                (\<lambda>found4. Inr (deduplicate_elements found4))) = Inr out"
    unfolding find_interaction_elements_def Let_def by (rule and_thenE)
  from r1 obtain found3 where
    f3: "svg_strategy self pr drv
           (selector_strategy self pr drv (ELEMENT_SELECTORS self) found1) = Inr found3"
    and r3: "and_then (counter_strategy self pr drv found3)
                (\<lambda>found4. Inr (deduplicate_elements found4)) = Inr out"
    by (rule and_thenE)
  from r3 obtain found4 where
    f4: "counter_strategy self pr drv found3 = Inr found4"
    and out: "out = deduplicate_elements found4"
    by (elim and_thenE) auto
  have "found1 = keyword_records self pr drv"
    using keyword_strategy_eq [OF f1] by (simp add: keyword_records_def)
  moreover have
    "selector_strategy self pr drv (ELEMENT_SELECTORS self) found1 =
       found1 @ selector_records self pr drv"
    by (simp add: selector_strategy_eq selector_records_def)
  ultimately have "found4 = candidates self pr drv"
    using svg_strategy_eq [OF f3] counter_strategy_eq [OF f4] by (simp add: candidates_def)
  with out show ?thesis by simp
qed

lemma matches_match_type:
  "r \<in> set (matches self pr els mterm ty) \<Longrightarrow> dict_get r ''match_type'' dflt = PyStr ty"
  by (auto simp: matches_def create_element_info_match_type)

lemma strategy_records_match_type:
  assumes "r \<in> set (strategy_records self pr drv ty)"
  shows "dict_get r ''match_type'' dflt = PyStr ty"
proof -
  have "r \<in> set (concat (map (\<lambda>x. matches self pr (f x) (g x) ty) xs)) \<Longrightarrow>
        dict_get r ''match_type'' dflt = PyStr ty" for f g and xs :: "string list"
    by (auto dest: matches_match_type)
  with assms show ?thesis
    by (auto simp: strategy_records_def keyword_records_def selector_records_def
        svg_records_def counter_records_def dest: matches_match_type split: if_splits)
qed

lemma candidates_strategy:
  assumes "r \<in> set (candidates self pr drv)"
  shows "\<exists>ty \<in> {''keyword_match'', ''selector_match'', ''svg_match'', ''counter_match''}.
           r \<in> set (strategy_records self pr drv ty)"
  using assms by (auto simp: candidates_def strategy_records_def)



text \<open>
  Claim C9. Every record that \<open>find_interaction_elements\<close> returns is among the records
  of one of the four strategies and its \<open>match_type\<close> field holds the tag of that
  strategy, one of \<open>keyword_match\<close>, \<open>selector_match\<close>, \<open>svg_match\<close> and
  \<open>counter_match\<close>; the field is set when the record is made, in both branches of
  \<open>_create_element_info\<close>, to the tag that the strategy passes.
\<close>

theorem match_type_of_producing_strategy:
  assumes "find_interaction_elements self pr drv = Inr out"
  shows "(\<forall>r \<in> set out.
            \<exists>ty \<in> {''keyword_match'', ''selector_match'', ''svg_match'', ''counter_match''}.
              r \<in> set (strategy_records self pr drv ty) \<and>
              dict_get r ''match_type'' PyNone = PyStr ty) \<and>
         (\<forall>element match_term match_type.
            dict_get (create_element_info element match_term match_type) ''match_type'' PyNone =
              PyStr match_type)"
proof -
  have "out = deduplicate_elements (candidates self pr drv)"
    using assms by (rule find_interaction_elements_eq)
  then have sub: "set out \<subseteq> set (candidates self pr drv)"
    unfolding deduplicate_elements_def using dedup_loop_truthy by blast
  have "\<exists>ty \<in> {''keyword_match'', ''selector_match'', ''svg_match'', ''counter_match''}.
          r \<in> set (strategy_records self pr drv ty) \<and>
          dict_get r ''match_type'' PyNone = PyStr ty" if "r \<in> set out" for r
  proof -
    from that sub have "r \<in> set (candidates self pr drv)" by blast
    from candidates_strategy [OF this] obtain ty where
      "ty \<in> {''keyword_match'', ''selector_match'', ''svg_match'', ''counter_match''}"
      and "r \<in> set (strategy_records self pr drv ty)" by blast
    with strategy_records_match_type [of r self pr drv ty PyNone] show ?thesis by blast
  qed
  then show ?thesis by (simp add: create_element_info_match_type)
qed

lemma plain_element_info:
  "create_element_info (plain_element body tag xpath css parent) mterm ty =
     [(''element_text'', PyStr (strip body)), (''element_tag'', PyStr tag),
      (''element_class'', PyStr []), (''element_id'', PyStr []),
      (''element_aria_label'', PyStr []), (''element_title'', PyStr []),
      (''element_html'', PyNone), (''element_xpath'', PyStr xpath),
      (''element_css'', PyStr css), (''match_term'', PyStr mterm),
      (''match_type'', PyStr ty)]" if "body \<noteq> []"
  using that
  by (simp add: create_element_info_def info_body_def plain_element_def
      generate_xpath_def generate_css_selector_def or_unknown_def Let_def)

lemma mixed_page_scores:
  "is_likely_interaction_element example_finder substring_ratio second_button"
  "is_likely_interaction_element example_finder substring_ratio icon_link"
  "is_likely_interaction_element example_finder substring_ratio votes_link"
  by (simp_all add: is_likely_interaction_element_def likely_body_def example_defs string_defs
      second_button_def icon_link_def votes_link_def plain_element_def Let_def)

lemma mixed_page_xpaths:
  "dict_get vote_keyword_record ''element_xpath'' dflt = PyStr ''/html/body/button[1]''"
  "dict_get vote_selector_record ''element_xpath'' dflt = PyStr ''/html/body/button[1]''"
  "dict_get second_button_record ''element_xpath'' dflt = PyStr ''/html/body/button[2]''"
  "dict_get icon_link_record ''element_xpath'' dflt = PyStr ''/html/body/a[1]''"
  "dict_get votes_link_record ''element_xpath'' dflt = PyStr ''/html/body/a[2]''"
  by (simp_all add: dict_get_def vote_keyword_record_eq vote_selector_record_eq
      second_button_record_def icon_link_record_def votes_link_record_def
      second_button_def icon_link_def votes_link_def plain_element_info)

lemma mixed_page_dedup:
  "deduplicate_elements
     [vote_keyword_record, vote_selector_record, second_button_record, icon_link_record,
      votes_link_record] =
   [vote_keyword_record, second_button_record, icon_link_record, votes_link_record]"
  by (simp add: deduplicate_elements_def mixed_page_xpaths)

lemma mixed_page_tags:
  "dict_get vote_keyword_record ''match_type'' PyNone = PyStr ''keyword_match''"
  "dict_get vote_selector_record ''match_type'' PyNone = PyStr ''selector_match''"
  "dict_get second_button_record ''match_type'' PyNone = PyStr ''selector_match''"
  "dict_get icon_link_record ''match_type'' PyNone = PyStr ''svg_match''"
  "dict_get votes_link_record ''match_type'' PyNone = PyStr ''counter_match''"
  by (simp_all add: vote_keyword_record_def vote_selector_record_def
      second_button_record_def icon_link_record_def votes_link_record_def
      create_element_info_match_type)

lemma mixed_page_strategies:
  "keyword_records example_finder substring_ratio mixed_page = [vote_keyword_record]"
  "selector_records example_finder substring_ratio mixed_page =
     [vote_selector_record, second_button_record]"
  "svg_records example_finder substring_ratio mixed_page = [icon_link_record]"
  "counter_records example_finder substring_ratio mixed_page = [votes_link_record]"
  using example_queries
  by (simp_all add: keyword_records_def selector_records_def svg_records_def
      counter_records_def matches_def query_def parents_def mixed_page_def example_catalogs
      example_scores mixed_page_scores count_span_def plain_element_def
      vote_keyword_record_def vote_selector_record_def second_button_record_def
      icon_link_record_def votes_link_record_def)

lemma mixed_page_found:
  "find_interaction_elements example_finder substring_ratio mixed_page =
     Inr [vote_keyword_record, second_button_record, icon_link_record, votes_link_record]"
proof -
  have "find_interaction_elements example_finder substring_ratio mixed_page =
     Inr (deduplicate_elements
       [vote_keyword_record, vote_selector_record, second_button_record, icon_link_record,
        votes_link_record])"
    using example_queries
    by (simp add: find_interaction_elements_def svg_strategy_def counter_strategy_def
        mixed_page_def example_catalogs example_scores mixed_page_scores count_span_def
        plain_element_def [of "''12''"]
        vote_keyword_record_def vote_selector_record_def second_button_record_def
        icon_link_record_def votes_link_record_def)
  then show ?thesis by (simp add: mixed_page_dedup)
qed


theorem match_type_of_producing_strategy_witness:
  "find_interaction_elements example_finder substring_ratio mixed_page =
     Inr [vote_keyword_record, second_button_record, icon_link_record, votes_link_record] \<and>
   vote_keyword_record \<in> set (strategy_records example_finder substring_ratio mixed_page ''keyword_match'') \<and>
   dict_get vote_keyword_record ''match_type'' PyNone = PyStr ''keyword_match'' \<and>
   second_button_record \<in> set (strategy_records example_finder substring_ratio mixed_page ''selector_match'') \<and>
   dict_get second_button_record ''match_type'' PyNone = PyStr ''selector_match'' \<and>
   icon_link_record \<in> set (strategy_records example_finder substring_ratio mixed_page ''svg_match'') \<and>
   dict_get icon_link_record ''match_type'' PyNone = PyStr ''svg_match'' \<and>
   votes_link_record \<in> set (strategy_records example_finder substring_ratio mixed_page ''counter_match'') \<and>
   dict_get votes_link_record ''match_type'' PyNone = PyStr ''counter_match''"
  using match_type_of_producing_strategy [OF mixed_page_found]
  by (simp add: mixed_page_found strategy_records_def mixed_page_strategies mixed_page_tags)

subsection \<open>The library score at threshold 100\<close>

text \<open>Two results that the documentation of \<open>difflib\<close> states.\<close>

lemma difflib_documented:
  "find_longest_match '' abcd'' ''abcd abcd'' 0 5 0 9 = (0, 4, 5)"
  "get_matching_blocks ''abxcd'' ''abcd'' = [(0, 0, 2), (3, 2, 2), (5, 4, 0)]"
  by code_simp+

text \<open>
  Claim C8. With threshold 100 and a catalog that contains the keyword "like", the scorer
  accepts a displayed, enabled, clickable element whose blob is "liked": the partial
  ratio of "like" against the blob is 100. The f-string of the scorer always puts the four
  separating blanks into the blob, so the blob of an element with the text "liked" and
  without class, id, aria-label and title is "liked" followed by four blanks.
\<close>

theorem partial_match_tolerates_suffix:
  assumes "''like'' \<in> set (INTERACTION_KEYWORDS self)" and "similarity_threshold self = 100"
    and reads: "is_displayed el = Inr True" "is_enabled el = Inr True"
      "el_text el = Inr t" "tag_name el = Inr tag"
      "get_attribute el ''class'' = Inr cls" "get_attribute el ''id'' = Inr ident"
      "get_attribute el ''aria-label'' = Inr aria" "get_attribute el ''title'' = Inr title"
      "get_attribute el ''role'' = Inr role"
    and blob: "combined_text (if t \<noteq> [] then lower t else []) (or_empty cls) (or_empty ident)
                 (or_empty aria) (or_empty title) = ''liked    ''"
    and clickable: "is_clickable (lower tag) (or_empty role) (or_empty cls)"
  shows "partial_ratio ''like'' ''liked    '' = 100 \<and>
         is_likely_interaction_element self partial_ratio el"
proof -
  have score: "partial_ratio ''like'' ''liked    '' = 100" by code_simp
  have "lower ''like'' = ''like''" by (simp add: lower_def lower_char_def)
  with score assms(1,2) have
    "\<exists>k \<in> set (INTERACTION_KEYWORDS self).
       similarity_threshold self \<le> partial_ratio (lower k) ''liked    ''"
    by (intro bexI [of _ "''like''"]) simp_all
  with clickable blob have "is_likely_interaction_element self partial_ratio el"
    by (simp add: likely_iff likely_body_reads [OF reads] keyword_loop_iff)
  with score show ?thesis by simp
qed

theorem partial_match_tolerates_suffix_witness:
  "''like'' \<in> set (INTERACTION_KEYWORDS like_finder) \<and>
   similarity_threshold like_finder = 100 \<and>
   is_likely_interaction_element like_finder partial_ratio liked_button"
  using partial_match_tolerates_suffix
      [of like_finder liked_button "''liked''" "''button''" None None None None None]
  by (simp add: like_finder_def liked_button_def string_defs)

end
